theory Spec2Isabelle
  imports Complex_Main "HOL-Library.Log_Nat"
begin

section \<open>Data model\<close>

text \<open>
  The module \<^verbatim>\<open>ax/modelbridge/generation_node_input_constructors.py\<close> reads a few
  attributes of objects whose classes live in other modules. Each such class is modelled
  by a record with the attributes that are read here (and a name, where two objects have
  to be told apart). Types whose values are never inspected by this module are left
  abstract.
\<close>

typedecl TParamValue
typedecl BaseTrial

record Arm =
  arm_name :: string
  arm_parameters :: "string \<rightharpoonup> TParamValue"

text \<open>A generator run; only \<^verbatim>\<open>gr.arms\<close> is read (by \<^verbatim>\<open>remaining_n\<close>).\<close>

record GeneratorRun =
  arms :: "Arm list"

text \<open>\<^verbatim>\<open>ObservationFeatures(parameters=..., trial_index=...)\<close>.\<close>

record ObservationFeatures =
  parameters :: "string \<rightharpoonup> TParamValue"
  trial_index :: "int option"

text \<open>
  \<^verbatim>\<open>next_node.generation_strategy.DEFAULT_N\<close>: the constant is declared in the generation
  strategy's module, so it is a field of the model and every result below holds for any
  value of it.
\<close>

record GenerationStrategy =
  DEFAULT_N :: int

record GenerationNode =
  node_name :: string
  generation_strategy :: GenerationStrategy

text \<open>
  The values that the dictionaries \<^verbatim>\<open>gs_gen_call_kwargs\<close> and
  \<^verbatim>\<open>experiment._properties\<close> (both \<^verbatim>\<open>dict[str, Any]\<close>) hold under the keys read
  here: \<^verbatim>\<open>None\<close>, an unbounded Python \<^verbatim>\<open>int\<close>, or a list of generator runs.
\<close>

datatype pyval =
    PNone
  | PInt int
  | PGenRuns "GeneratorRun list"

type_synonym pydict = "string \<rightharpoonup> pyval"

record Experiment =
  properties :: pydict
  trials :: "int \<rightharpoonup> BaseTrial"

text \<open>
  The pieces of the f-string of \<^verbatim>\<open>set_target_trial\<close>'s exception message: literal
  text, and the \<^verbatim>\<open>str()\<close> of objects whose rendering is defined elsewhere.
\<close>

datatype msg_part =
    Lit string
  | StrNode GenerationNode
  | StrStatusesExpectingData
  | StrTrials "int \<rightharpoonup> BaseTrial"

datatype error =
    TypeError
  | ZeroDivisionError
  | OverflowError
  | ValueError string
  | AxGenerationException "msg_part list"

text \<open>\<^verbatim>\<open>d.get(k)\<close> and \<^verbatim>\<open>d.get(k, default)\<close>.\<close>

definition dict_get :: "pydict \<Rightarrow> string \<Rightarrow> pyval \<Rightarrow> pyval" where
  "dict_get d k dflt = (case d k of None \<Rightarrow> dflt | Some v \<Rightarrow> v)"

text \<open>
  Modelled from the spec: the string behind \<^verbatim>\<open>Keys.EXPERIMENT_TOTAL_CONCURRENT_ARMS.value\<close>
  is declared in \<^verbatim>\<open>ax.utils.common.constants\<close>; the spec calls it the experiment's
  "total concurrent arms" property. No result below depends on the string chosen.
\<close>

definition EXPERIMENT_TOTAL_CONCURRENT_ARMS :: string where
  "EXPERIMENT_TOTAL_CONCURRENT_ARMS = ''total_concurrent_arms''"

section \<open>Python's true division of integers and \<^verbatim>\<open>math.ceil\<close>\<close>

text \<open>
  \<^verbatim>\<open>total_n / 10\<close> on two Python ints is a binary64 float: the double nearest to the
  exact quotient, ties going to the even significand, and \<^verbatim>\<open>OverflowError\<close> when that
  double would be beyond the largest finite one. A float is represented by the rational
  number it denotes.
\<close>

definition round_half_even :: "rat \<Rightarrow> int" where
  "round_half_even x =
     (let f = \<lfloor>x\<rfloor>; d = x - of_int f
      in if d < 1 / 2 then f
         else if 1 / 2 < d then f + 1
         else if even f then f else f + 1)"

text \<open>For \<open>q > 0\<close>, the integer \<open>e\<close> with \<open>2\<^sup>e \<le> q < 2\<^sup>e\<^sup>+\<^sup>1\<close>.\<close>

definition binade :: "rat \<Rightarrow> int" where
  "binade q = (if 1 \<le> q then bitlen \<lfloor>q\<rfloor> - 1 else - bitlen (\<lceil>1 / q\<rceil> - 1))"

text \<open>
  The nearest number of the form \<open>m * 2\<^sup>e\<^sup>-\<^sup>5\<^sup>2\<close> with a 53-bit significand \<open>m\<close>; below the
  smallest normal exponent \<open>-1022\<close> the spacing stays that of the subnormal numbers.
\<close>

definition double_of_rat :: "rat \<Rightarrow> rat" where
  "double_of_rat q =
     (if q = 0 then 0
      else let e = max (binade \<bar>q\<bar>) (- 1022);
               m = round_half_even (\<bar>q\<bar> / 2 powi (e - 52))
           in sgn q * of_int m * 2 powi (e - 52))"

definition int_truediv :: "int \<Rightarrow> int \<Rightarrow> error + rat" where
  "int_truediv a b =
     (if b = 0 then Inl ZeroDivisionError
      else let r = double_of_rat (of_int a / of_int b)
           in if 2 ^ 1024 \<le> \<bar>r\<bar> then Inl OverflowError else Inr r)"

definition math_ceil :: "rat \<Rightarrow> int" where
  "math_ceil x = \<lceil>x\<rceil>"

section \<open>The input constructors\<close>

text \<open>\<^verbatim>\<open>_get_default_n(experiment, next_node)\<close>.\<close>

definition get_default_n :: "Experiment \<Rightarrow> GenerationNode \<Rightarrow> pyval" where
  "get_default_n expt next_node =
     (let total_concurrent_arms = dict_get (properties expt) EXPERIMENT_TOTAL_CONCURRENT_ARMS PNone
      in if total_concurrent_arms \<noteq> PNone then total_concurrent_arms
         else PInt (DEFAULT_N (generation_strategy next_node) * 10))"

text \<open>\<^verbatim>\<open>consume_all_n\<close>: the value is handed back as it is, whatever its type.\<close>

definition consume_all_n ::
  "GenerationNode option \<Rightarrow> GenerationNode \<Rightarrow> pydict \<Rightarrow> Experiment \<Rightarrow> error + pyval" where
  "consume_all_n previous_node next_node gs_gen_call_kwargs expt =
     Inr (if dict_get gs_gen_call_kwargs ''n'' PNone \<noteq> PNone
          then dict_get gs_gen_call_kwargs ''n'' PNone
          else get_default_n expt next_node)"

text \<open>
  \<^verbatim>\<open>repeat_arm_n\<close>. Comparing anything but a number with \<^verbatim>\<open>6\<close> raises
  \<^verbatim>\<open>TypeError\<close>; \<^verbatim>\<open>ceil(total_n / 10)\<close> goes through the float quotient.
\<close>

definition repeat_arm_n ::
  "GenerationNode option \<Rightarrow> GenerationNode \<Rightarrow> pydict \<Rightarrow> Experiment \<Rightarrow> error + pyval" where
  "repeat_arm_n previous_node next_node gs_gen_call_kwargs expt =
     (let total_n =
            (if dict_get gs_gen_call_kwargs ''n'' PNone \<noteq> PNone
             then dict_get gs_gen_call_kwargs ''n'' PNone
             else get_default_n expt next_node)
      in case total_n of
           PInt t \<Rightarrow>
             if t < 6 then Inr (PInt 0)
             else if t \<le> 10 then Inr (PInt 1)
             else (case int_truediv t 10 of
                     Inl e \<Rightarrow> Inl e
                   | Inr x \<Rightarrow> Inr (PInt (math_ceil x)))
         | _ \<Rightarrow> Inl TypeError)"

text \<open>
  \<^verbatim>\<open>remaining_n\<close>. Iterating over anything but a list, and subtracting an int from
  anything but a number, raise \<^verbatim>\<open>TypeError\<close>.
\<close>

definition remaining_n ::
  "GenerationNode option \<Rightarrow> GenerationNode \<Rightarrow> pydict \<Rightarrow> Experiment \<Rightarrow> error + pyval" where
  "remaining_n previous_node next_node gs_gen_call_kwargs expt =
     (let grs_this_gen = dict_get gs_gen_call_kwargs ''grs_this_gen'' (PGenRuns []);
          total_n =
            (if dict_get gs_gen_call_kwargs ''n'' PNone \<noteq> PNone
             then dict_get gs_gen_call_kwargs ''n'' PNone
             else get_default_n expt next_node)
      in case grs_this_gen of
           PGenRuns grs \<Rightarrow>
             (case total_n of
                PInt t \<Rightarrow> Inr (PInt (max (t - (\<Sum>gr\<leftarrow>grs. int (length (arms gr)))) 0))
              | _ \<Rightarrow> Inl TypeError)
         | _ \<Rightarrow> Inl TypeError)"

text \<open>
  \<^verbatim>\<open>set_target_trial\<close>. The helper \<^verbatim>\<open>get_target_trial_index\<close> is imported from
  \<^verbatim>\<open>ax.core.utils\<close>, so it is a parameter of the model. The return annotation is
  \<^verbatim>\<open>ObservationFeatures | None\<close>, hence the option.
\<close>

definition no_target_trial_message :: "GenerationNode \<Rightarrow> Experiment \<Rightarrow> msg_part list" where
  "no_target_trial_message next_node expt =
     [Lit ''Attempting to construct for input into '', StrNode next_node,
      Lit '' but no trials match the expected conditions. Often this could be due to no trials on the experiment that are in status '',
      StrStatusesExpectingData,
      Lit '' on the experiment. The trials on this experiment are: '', StrTrials (trials expt),
      Lit ''.'']"

definition set_target_trial ::
  "(Experiment \<Rightarrow> int option) \<Rightarrow>
   GenerationNode option \<Rightarrow> GenerationNode \<Rightarrow> pydict \<Rightarrow> Experiment \<Rightarrow>
   error + ObservationFeatures option" where
  "set_target_trial get_target_trial_index previous_node next_node gs_gen_call_kwargs expt =
     (case get_target_trial_index expt of
        None \<Rightarrow> Inl (AxGenerationException (no_target_trial_message next_node expt))
      | Some target_trial_idx \<Rightarrow>
          Inr (Some \<lparr>parameters = Map.empty, trial_index = Some target_trial_idx\<rparr>))"

section \<open>The enums and the dispatch\<close>

datatype NodeInputConstructors = ALL_N | REPEAT_N | REMAINING_N | TARGET_TRIAL_FIXED_FEATURES

fun enum_value :: "NodeInputConstructors \<Rightarrow> string" where
  "enum_value ALL_N = ''consume_all_n''"
| "enum_value REPEAT_N = ''repeat_arm_n''"
| "enum_value REMAINING_N = ''remaining_n''"
| "enum_value TARGET_TRIAL_FIXED_FEATURES = ''set_target_trial''"

datatype InputConstructorPurpose = N | FIXED_FEATURES

fun purpose_value :: "InputConstructorPurpose \<Rightarrow> string" where
  "purpose_value N = ''n''"
| "purpose_value FIXED_FEATURES = ''fixed_features''"

text \<open>What a dispatched constructor hands back: a count, or fixed features.\<close>

datatype node_input =
    CountInput pyval
  | FixedFeaturesInput "ObservationFeatures option"

type_synonym input_constructor =
  "GenerationNode option \<Rightarrow> GenerationNode \<Rightarrow> pydict \<Rightarrow> Experiment \<Rightarrow> error + node_input"

text \<open>
  \<^verbatim>\<open>getattr(sys.modules[__name__], name)\<close>: \<open>None\<close> stands for \<^verbatim>\<open>AttributeError\<close>.
  The four constructors are the functions above. Whatever else the module object has
  as attributes (its imports, the two enum classes, the helper, the attributes every
  module has), together with what calling it with the four keyword arguments does, is
  the parameter \<open>other_attrs\<close>.
\<close>

definition module_getattr ::
  "(string \<rightharpoonup> input_constructor) \<Rightarrow> (Experiment \<Rightarrow> int option) \<Rightarrow> string \<Rightarrow>
   input_constructor option" where
  "module_getattr other_attrs get_target_trial_index name =
     (if name = ''set_target_trial''
      then Some (\<lambda>p n k e. map_sum id FixedFeaturesInput (set_target_trial get_target_trial_index p n k e))
      else if name = ''consume_all_n''
      then Some (\<lambda>p n k e. map_sum id CountInput (consume_all_n p n k e))
      else if name = ''repeat_arm_n''
      then Some (\<lambda>p n k e. map_sum id CountInput (repeat_arm_n p n k e))
      else if name = ''remaining_n''
      then Some (\<lambda>p n k e. map_sum id CountInput (remaining_n p n k e))
      else other_attrs name)"

text \<open>The body of \<^verbatim>\<open>NodeInputConstructors.__call__\<close>, on the string \<^verbatim>\<open>self.value\<close>.\<close>

definition call_value ::
  "(string \<rightharpoonup> input_constructor) \<Rightarrow> (Experiment \<Rightarrow> int option) \<Rightarrow> string \<Rightarrow> input_constructor" where
  "call_value other_attrs get_target_trial_index self_value
              previous_node next_node gs_gen_call_kwargs expt =
     (case module_getattr other_attrs get_target_trial_index self_value of
        None \<Rightarrow>
          Inl (ValueError (self_value @
            '' is not defined as a method in ``generation_node_input_constructors.py``. Please add the method to the file.''))
      | Some method \<Rightarrow> method previous_node next_node gs_gen_call_kwargs expt)"

definition call ::
  "(string \<rightharpoonup> input_constructor) \<Rightarrow> (Experiment \<Rightarrow> int option) \<Rightarrow>
   NodeInputConstructors \<Rightarrow> input_constructor" where
  "call other_attrs get_target_trial_index self =
     call_value other_attrs get_target_trial_index (enum_value self)"

section \<open>The specification's vocabulary\<close>

text \<open>
  The resolved total count \<open>T\<close>: the value under key \<^verbatim>\<open>"n"\<close> when it is present and
  not \<^verbatim>\<open>None\<close>, and otherwise the output of \<^verbatim>\<open>_get_default_n\<close>.
\<close>

definition resolved_total :: "pydict \<Rightarrow> Experiment \<Rightarrow> GenerationNode \<Rightarrow> pyval" where
  "resolved_total kw expt next_node =
     (case kw ''n'' of
        None \<Rightarrow> get_default_n expt next_node
      | Some v \<Rightarrow> if v = PNone then get_default_n expt next_node else v)"

text \<open>
  The arms already allocated: the sum of the arm counts of the generator runs under
  key \<^verbatim>\<open>"grs_this_gen"\<close>, an absent key counting as the empty sequence.
\<close>

definition allocated :: "pydict \<Rightarrow> int option" where
  "allocated kw =
     (case kw ''grs_this_gen'' of
        None \<Rightarrow> Some 0
      | Some (PGenRuns grs) \<Rightarrow> Some (\<Sum>gr\<leftarrow>grs. int (length (arms gr)))
      | Some _ \<Rightarrow> None)"

text \<open>The ladder of the repeat-fraction constructor, in exact integer arithmetic.\<close>

definition repeat_ladder :: "int \<Rightarrow> int" where
  "repeat_ladder T = (if T < 6 then 0 else if T \<le> 10 then 1 else \<lceil>of_int T / (10::rat)\<rceil>)"

text \<open>
  Modelled from the spec: the purpose of each identifier is not recorded in the source
  (the two enums are not connected there); the spec gives \<^verbatim>\<open>set_target_trial\<close> the
  purpose FIXED_FEATURES and the other three the purpose COUNT, an integer being
  expected for COUNT and a fixed-features value for FIXED_FEATURES.
\<close>

fun purpose_of :: "NodeInputConstructors \<Rightarrow> InputConstructorPurpose" where
  "purpose_of TARGET_TRIAL_FIXED_FEATURES = FIXED_FEATURES"
| "purpose_of _ = N"

fun has_purpose :: "InputConstructorPurpose \<Rightarrow> node_input \<Rightarrow> bool" where
  "has_purpose N (CountInput (PInt _)) = True"
| "has_purpose FIXED_FEATURES (FixedFeaturesInput (Some _)) = True"
| "has_purpose _ _ = False"

text \<open>The two thresholds of the float quotient \<^verbatim>\<open>total_n / 10\<close>.\<close>

definition exact_limit :: int where
  "exact_limit = 10 * 2 ^ 50"

definition overflow_limit :: int where
  "overflow_limit = 10 * (2 ^ 1024 - 2 ^ 970)"

text \<open>Concrete objects for the examples.\<close>

definition example_node :: "int \<Rightarrow> GenerationNode" where
  "example_node d = \<lparr>node_name = ''sobol'', generation_strategy = \<lparr>DEFAULT_N = d\<rparr>\<rparr>"

definition example_experiment :: "pydict \<Rightarrow> Experiment" where
  "example_experiment props = \<lparr>properties = props, trials = Map.empty\<rparr>"

definition example_arm :: Arm where
  "example_arm = \<lparr>arm_name = ''0_0'', arm_parameters = Map.empty\<rparr>"

definition example_run :: "nat \<Rightarrow> GeneratorRun" where
  "example_run k = \<lparr>arms = replicate k example_arm\<rparr>"

section \<open>Rounding to the nearest double\<close>

subsection \<open>Rounding to an integer, ties to even\<close>

lemma rhe_lower: "\<lfloor>x\<rfloor> \<le> round_half_even x"
  by (simp add: round_half_even_def Let_def)

lemma rhe_upper: "round_half_even x \<le> \<lfloor>x\<rfloor> + 1"
  by (simp add: round_half_even_def Let_def)

lemma rhe_of_int: "round_half_even (of_int k) = k"
  by (simp add: round_half_even_def)

lemma rhe_mono:
  assumes "x \<le> y"
  shows "round_half_even x \<le> round_half_even y"
proof (cases "\<lfloor>x\<rfloor> = \<lfloor>y\<rfloor>")
  case True
  with assms show ?thesis
    by (auto simp: round_half_even_def Let_def)
next
  case False
  with assms have "\<lfloor>x\<rfloor> < \<lfloor>y\<rfloor>"
    using floor_mono [of x y] by linarith
  then have "round_half_even x \<le> \<lfloor>y\<rfloor>"
    using rhe_upper [of x] by linarith
  then show ?thesis
    using rhe_lower [of y] by linarith
qed

lemma rhe_near_above: "of_int (round_half_even x) \<le> x + 1 / 2"
  by (auto simp: round_half_even_def Let_def) linarith+

lemma rhe_near_below: "x - 1 / 2 \<le> of_int (round_half_even x)"
  by (auto simp: round_half_even_def Let_def) linarith+

subsection \<open>The exponent of a quotient that is at least one\<close>

lemma binade_nonneg: "1 \<le> q \<Longrightarrow> 0 \<le> binade q"
proof -
  assume q: "1 \<le> q"
  then have "1 \<le> \<lfloor>q\<rfloor>" by simp
  then have "1 \<le> bitlen \<lfloor>q\<rfloor>"
    by (simp add: bitlen_ge_iff_power)
  with q show ?thesis by (simp add: binade_def)
qed

lemma binade_lower:
  assumes "1 \<le> q"
  shows "2 powi (binade q) \<le> q"
proof -
  have n: "0 < \<lfloor>q\<rfloor>" using assms by simp
  have e: "0 \<le> binade q" using assms by (rule binade_nonneg)
  have "2 ^ nat (bitlen \<lfloor>q\<rfloor> - 1) \<le> \<lfloor>q\<rfloor>"
    using bitlen_bounds [OF n] by simp
  then have "(of_int (2 ^ nat (bitlen \<lfloor>q\<rfloor> - 1)) :: rat) \<le> of_int \<lfloor>q\<rfloor>"
    by (simp only: of_int_le_iff)
  also have "\<dots> \<le> q" by simp
  finally have "(2::rat) ^ nat (binade q) \<le> q"
    using assms by (simp add: binade_def)
  then show ?thesis using e by (simp add: power_int_nonneg_exp)
qed

lemma binade_upper:
  assumes "1 \<le> q"
  shows "q < 2 powi (binade q + 1)"
proof -
  have n: "0 < \<lfloor>q\<rfloor>" using assms by simp
  have e: "0 \<le> binade q" using assms by (rule binade_nonneg)
  have "\<lfloor>q\<rfloor> < 2 ^ nat (bitlen \<lfloor>q\<rfloor>)"
    using bitlen_bounds [OF n] by simp
  then have "\<lfloor>q\<rfloor> + 1 \<le> 2 ^ nat (bitlen \<lfloor>q\<rfloor>)" by simp
  then have "(of_int (\<lfloor>q\<rfloor> + 1) :: rat) \<le> of_int (2 ^ nat (bitlen \<lfloor>q\<rfloor>))"
    by (simp only: of_int_le_iff)
  moreover have "q < of_int (\<lfloor>q\<rfloor> + 1)" by simp linarith
  ultimately have "q < (2::rat) ^ nat (bitlen \<lfloor>q\<rfloor>)" by simp
  moreover have "bitlen \<lfloor>q\<rfloor> = binade q + 1" using assms by (simp add: binade_def)
  ultimately show ?thesis using e by (simp add: power_int_nonneg_exp)
qed

lemma binade_mono:
  assumes "1 \<le> q1" "q1 \<le> q2"
  shows "binade q1 \<le> binade q2"
proof (rule ccontr)
  assume "\<not> binade q1 \<le> binade q2"
  then have "binade q2 + 1 \<le> binade q1" by simp
  then have "(2::rat) powi (binade q2 + 1) \<le> 2 powi (binade q1)"
    by (intro power_int_increasing) simp_all
  also have "\<dots> \<le> q1" using assms(1) by (rule binade_lower)
  also have "\<dots> \<le> q2" by fact
  also have "\<dots> < 2 powi (binade q2 + 1)"
    using assms by (intro binade_upper) simp
  finally show False by simp
qed

subsection \<open>The rounded quotient lies in the same binade and is monotone\<close>

lemma double_of_rat_ge1:
  "1 \<le> q \<Longrightarrow>
   double_of_rat q = of_int (round_half_even (q / 2 powi (binade q - 52))) * 2 powi (binade q - 52)"
  using binade_nonneg [of q] by (simp add: double_of_rat_def Let_def max_def)

lemma double_lower:
  assumes "1 \<le> q"
  shows "2 powi (binade q) \<le> double_of_rat q"
proof -
  let ?e = "binade q"
  let ?u = "(2::rat) powi (?e - 52)"
  have u: "0 < ?u" by (simp add: zero_less_power_int)
  have "(2::rat) powi ?e = 2 ^ 52 * ?u"
    by (simp add: power_int_diff)
  then have "(2::rat) ^ 52 * ?u \<le> q" using binade_lower [OF assms] by simp
  then have "(2::rat) ^ 52 \<le> q / ?u" using u by (simp add: pos_le_divide_eq)
  then have "of_int (2 ^ 52) \<le> q / ?u" by simp
  then have "round_half_even (of_int (2 ^ 52)) \<le> round_half_even (q / ?u)"
    by (rule rhe_mono)
  then have "2 ^ 52 \<le> round_half_even (q / ?u)" by (simp only: rhe_of_int)
  then have "(of_int (2 ^ 52) :: rat) \<le> of_int (round_half_even (q / ?u))"
    by (simp only: of_int_le_iff)
  then have "2 ^ 52 * ?u \<le> of_int (round_half_even (q / ?u)) * ?u"
    using u by simp
  then show ?thesis
    using \<open>(2::rat) powi ?e = 2 ^ 52 * ?u\<close> double_of_rat_ge1 [OF assms] by simp
qed

lemma double_upper:
  assumes "1 \<le> q"
  shows "double_of_rat q \<le> 2 powi (binade q + 1)"
proof -
  let ?e = "binade q"
  let ?u = "(2::rat) powi (?e - 52)"
  have u: "0 < ?u" by (simp add: zero_less_power_int)
  have eq: "(2::rat) powi (?e + 1) = 2 ^ 53 * ?u"
    by (simp add: power_int_diff power_int_add)
  then have "q \<le> (2::rat) ^ 53 * ?u" using binade_upper [OF assms] by simp
  then have "q / ?u \<le> (2::rat) ^ 53" using u by (simp add: pos_divide_le_eq)
  then have "q / ?u \<le> of_int (2 ^ 53)" by simp
  then have "round_half_even (q / ?u) \<le> round_half_even (of_int (2 ^ 53))"
    by (rule rhe_mono)
  then have "round_half_even (q / ?u) \<le> 2 ^ 53" by (simp only: rhe_of_int)
  then have "(of_int (round_half_even (q / ?u)) :: rat) \<le> of_int (2 ^ 53)"
    by (simp only: of_int_le_iff)
  then have "of_int (round_half_even (q / ?u)) * ?u \<le> 2 ^ 53 * ?u"
    using u by simp
  then show ?thesis
    using eq double_of_rat_ge1 [OF assms] by simp
qed

lemma double_of_rat_mono:
  assumes "1 \<le> q1" "q1 \<le> q2"
  shows "double_of_rat q1 \<le> double_of_rat q2"
proof (cases "binade q1 = binade q2")
  case True
  let ?u = "(2::rat) powi (binade q2 - 52)"
  have u: "0 < ?u" by (simp add: zero_less_power_int)
  have "q1 / ?u \<le> q2 / ?u" using assms(2) u by (simp add: divide_right_mono)
  then have "round_half_even (q1 / ?u) \<le> round_half_even (q2 / ?u)" by (rule rhe_mono)
  then have "(of_int (round_half_even (q1 / ?u)) :: rat) \<le> of_int (round_half_even (q2 / ?u))"
    by (simp only: of_int_le_iff)
  then have "of_int (round_half_even (q1 / ?u)) * ?u \<le> of_int (round_half_even (q2 / ?u)) * ?u"
    using u by simp
  then show ?thesis
    using assms True by (simp add: double_of_rat_ge1)
next
  case False
  have q2: "1 \<le> q2" using assms by simp
  from False have "binade q1 + 1 \<le> binade q2"
    using binade_mono [OF assms] by simp
  then have "(2::rat) powi (binade q1 + 1) \<le> 2 powi (binade q2)"
    by (intro power_int_increasing) simp_all
  then show ?thesis
    using double_upper [OF assms(1)] double_lower [OF q2] by linarith
qed

lemma binade_le:
  assumes "1 \<le> q" "q < 2 powi (b + 1)"
  shows "binade q \<le> b"
proof (rule ccontr)
  assume "\<not> binade q \<le> b"
  then have "b + 1 \<le> binade q" by simp
  then have "(2::rat) powi (b + 1) \<le> 2 powi (binade q)"
    by (intro power_int_increasing) simp_all
  also have "\<dots> \<le> q" using assms(1) by (rule binade_lower)
  finally show False using assms(2) by simp
qed

lemma binade_ge:
  assumes "1 \<le> q" "2 powi b \<le> q"
  shows "b \<le> binade q"
proof (rule ccontr)
  assume "\<not> b \<le> binade q"
  then have "binade q + 1 \<le> b" by simp
  then have "(2::rat) powi (binade q + 1) \<le> 2 powi b"
    by (intro power_int_increasing) simp_all
  then have "q < 2 powi b" using binade_upper [OF assms(1)] by linarith
  then show False using assms(2) by simp
qed

subsection \<open>Where the ceiling of the rounded quotient is the exact ceiling\<close>

lemma double_of_rat_small:
  assumes "1 \<le> q" "binade q \<le> 52"
  shows "double_of_rat q =
           of_int (round_half_even (q * of_int (2 ^ nat (52 - binade q)))) / of_int (2 ^ nat (52 - binade q))"
proof -
  have "(2::rat) powi (binade q - 52) = 1 / 2 powi (52 - binade q)"
    using power_int_minus_divide [of "2::rat" "52 - binade q"] by simp
  also have "\<dots> = 1 / 2 ^ nat (52 - binade q)"
    using assms(2) by (simp add: power_int_nonneg_exp)
  finally have "(2::rat) powi (binade q - 52) = 1 / of_int (2 ^ nat (52 - binade q))"
    by simp
  then show ?thesis
    using assms(1) by (simp add: double_of_rat_ge1)
qed

lemma ceil_double_exact_multiple:
  assumes "1 \<le> k" "k \<le> 2 ^ 50"
  shows "double_of_rat (of_int k) = of_int k"
proof -
  have q: "(1::rat) \<le> of_int k" using assms(1) by simp
  have "(of_int k :: rat) \<le> of_int (2 ^ 50)" using assms(2) by (simp only: of_int_le_iff)
  then have "(of_int k :: rat) < 2 powi (50 + 1)" by simp
  then have e: "binade (of_int k) \<le> 50" using q by (intro binade_le)
  let ?sc = "(2::int) ^ nat (52 - binade (of_int k))"
  have sc: "0 < ?sc" by simp
  have "double_of_rat (of_int k) = of_int (round_half_even (of_int k * of_int ?sc)) / of_int ?sc"
    using q e by (intro double_of_rat_small) simp_all
  also have "of_int k * of_int ?sc = (of_int (k * ?sc) :: rat)" by simp
  also have "round_half_even (of_int (k * ?sc)) = k * ?sc" by (rule rhe_of_int)
  also have "(of_int (k * ?sc) :: rat) / of_int ?sc = of_int k" using sc by simp
  finally show ?thesis .
qed

lemma ceil_double_exact_fraction:
  assumes k: "1 \<le> k" "k < 2 ^ 50" and r: "1 \<le> r" "r \<le> 9"
  shows "\<lceil>double_of_rat (of_int k + of_int r / 10)\<rceil> = k + 1"
proof -
  define q :: rat where "q = of_int k + of_int r / 10"
  have q: "1 \<le> q" using k(1) r(1) by (simp add: q_def add_increasing2)
  have "of_int r / 10 < (1::rat)" using r(2) by simp
  moreover have "(of_int (k + 1) :: rat) \<le> of_int (2 ^ 50)"
    using k(2) by (simp only: of_int_le_iff)
  ultimately have "q < 2 ^ 50" by (simp add: q_def)
  then have "q < 2 powi (49 + 1)" by simp
  then have e: "binade q \<le> 49" using q by (intro binade_le)
  define sc :: int where "sc = 2 ^ nat (52 - binade q)"
  define scr :: rat where "scr = of_int sc"
  define m where "m = round_half_even (q * scr)"
  have "3 \<le> nat (52 - binade q)" using e by simp
  then have "(2::int) ^ 3 \<le> sc" unfolding sc_def by (intro power_increasing) simp_all
  then have "(of_int (2 ^ 3) :: rat) \<le> scr" unfolding scr_def by (simp only: of_int_le_iff)
  then have sc8: "8 \<le> scr" by simp
  have d: "double_of_rat q = of_int m / scr"
    unfolding m_def scr_def sc_def using q e by (intro double_of_rat_small) simp_all
  have rs1: "scr \<le> of_int r * scr"
    using r(1) sc8 by (simp add: mult_le_cancel_right1)
  have rs9: "of_int r * scr \<le> 9 * scr"
    using r(2) sc8 by (intro mult_right_mono) simp_all
  have x: "q * scr = of_int k * scr + of_int r * scr / 10"
    by (simp add: q_def algebra_simps)
  have lo: "of_int k * scr < of_int m"
    using rhe_near_below [of "q * scr"] rs1 sc8 unfolding x m_def by linarith
  have "(of_int k + 1) * scr = of_int k * scr + scr" by (simp add: algebra_simps)
  then have hi: "of_int m < (of_int k + 1) * scr"
    using rhe_near_above [of "q * scr"] rs9 sc8 unfolding x m_def by linarith
  have scpos: "0 < scr" using sc8 by linarith
  have "of_int k < of_int m / scr"
    using lo scpos by (simp add: pos_less_divide_eq)
  moreover have "of_int m / scr < of_int k + 1"
    using hi scpos by (simp add: pos_divide_less_eq)
  ultimately have "\<lceil>of_int m / scr\<rceil> = k + 1"
    by (intro ceiling_unique) simp_all
  then show ?thesis using d by (simp add: q_def)
qed

lemma ceil_truediv10_exact:
  assumes "10 < T" "T \<le> 10 * 2 ^ 50"
  shows "\<lceil>double_of_rat (of_int T / of_int 10)\<rceil> = (T + 9) div 10"
proof (cases "T mod 10 = 0")
  case True
  define k where "k = T div 10"
  have T: "T = 10 * k" using True unfolding k_def by presburger
  have k: "1 \<le> k" "k \<le> 2 ^ 50" using assms unfolding T by simp_all
  have "of_int T / of_int 10 = (of_int k :: rat)" by (simp add: T)
  then show ?thesis using ceil_double_exact_multiple [OF k] by (simp add: T)
next
  case False
  define k where "k = T div 10"
  define r where "r = T mod 10"
  have T: "T = 10 * k + r" by (simp add: k_def r_def)
  have r: "1 \<le> r" "r \<le> 9" using False unfolding r_def by presburger+
  have k: "1 \<le> k" "k < 2 ^ 50" using assms r unfolding T by simp_all
  have eq: "of_int T / of_int 10 = (of_int k + of_int r / 10 :: rat)" by (simp add: T)
  have "(T + 9) div 10 = k + 1" using r unfolding T by simp
  then show ?thesis by (simp only: eq ceil_double_exact_fraction [OF k r])
qed

lemma ceil_truediv10_le:
  assumes "10 < T"
  shows "\<lceil>double_of_rat (of_int T / of_int 10)\<rceil> \<le> T"
proof -
  let ?q = "of_int T / of_int 10 :: rat"
  have q: "1 \<le> ?q" using assms by simp
  have "(2::rat) powi (binade ?q + 1) = 2 * 2 powi (binade ?q)"
    by (simp add: power_int_add)
  also have "\<dots> \<le> 2 * ?q" using binade_lower [OF q] by simp
  also have "\<dots> \<le> of_int T" using assms by simp
  finally have "double_of_rat ?q \<le> of_int T"
    using double_upper [OF q] by linarith
  then show ?thesis by (simp add: ceiling_le_iff)
qed

lemma ceil_truediv10_ge:
  assumes "10 < T"
  shows "1 \<le> \<lceil>double_of_rat (of_int T / of_int 10)\<rceil>"
proof -
  let ?q = "of_int T / of_int 10 :: rat"
  have q: "1 \<le> ?q" using assms by simp
  have "(1::rat) \<le> 2 powi (binade ?q)"
    using binade_nonneg [OF q] by (simp add: one_le_power_int)
  then have "0 < double_of_rat ?q" using double_lower [OF q] by linarith
  then show ?thesis by (simp add: ceiling_le_iff)
qed

subsection \<open>Where the quotient overflows\<close>

lemma rhe_tie_53: "round_half_even (2 ^ 53 - 1 / 2) = 2 ^ 53"
  by code_simp

lemma double_overflow_iff:
  assumes "1 \<le> q"
  shows "2 ^ 1024 \<le> double_of_rat q \<longleftrightarrow> 2 ^ 1024 - 2 ^ 970 \<le> q"
proof
  assume big: "2 ^ 1024 - 2 ^ 970 \<le> q"
  show "2 ^ 1024 \<le> double_of_rat q"
  proof (cases "1024 \<le> binade q")
    case True
    then have "(2::rat) powi 1024 \<le> 2 powi binade q"
      by (intro power_int_increasing) simp_all
    then show ?thesis using double_lower [OF assms] by simp
  next
    case False
    have "(2::rat) powi 1023 \<le> q" using big by simp
    then have "1023 \<le> binade q" using assms by (intro binade_ge)
    with False have e: "binade q = 1023" by simp
    have d: "double_of_rat q = of_int (round_half_even (q / 2 ^ 971)) * 2 ^ 971"
      using double_of_rat_ge1 [OF assms] e by simp
    have "(2 ^ 53 - 1 / 2 :: rat) \<le> q / 2 ^ 971"
      using big by (simp add: pos_le_divide_eq)
    then have "round_half_even (2 ^ 53 - 1 / 2) \<le> round_half_even (q / 2 ^ 971)"
      by (rule rhe_mono)
    then have "2 ^ 53 \<le> round_half_even (q / 2 ^ 971)"
      by (simp only: rhe_tie_53)
    then have "(of_int (2 ^ 53) :: rat) \<le> of_int (round_half_even (q / 2 ^ 971))"
      by (simp only: of_int_le_iff)
    then have "(of_int (2 ^ 53) :: rat) * 2 ^ 971 \<le> of_int (round_half_even (q / 2 ^ 971)) * 2 ^ 971"
      by (intro mult_right_mono) simp_all
    then show ?thesis unfolding d by simp
  qed
next
  assume ov: "2 ^ 1024 \<le> double_of_rat q"
  show "2 ^ 1024 - 2 ^ 970 \<le> q"
  proof (rule ccontr)
    assume "\<not> 2 ^ 1024 - 2 ^ 970 \<le> q"
    then have small: "q < 2 ^ 1024 - 2 ^ 970" by simp
    then have "q < 2 powi (1023 + 1)" by simp
    then have e: "binade q \<le> 1023" using assms by (intro binade_le)
    show False
    proof (cases "binade q = 1023")
      case True
      have d: "double_of_rat q = of_int (round_half_even (q / 2 ^ 971)) * 2 ^ 971"
        using double_of_rat_ge1 [OF assms] True by simp
      have "q / 2 ^ 971 < (2 ^ 53 - 1 / 2 :: rat)"
        using small by (simp add: pos_divide_less_eq)
      then have "of_int (round_half_even (q / 2 ^ 971)) < (2 ^ 53 :: rat)"
        using rhe_near_above [of "q / 2 ^ 971"] by linarith
      then have "of_int (round_half_even (q / 2 ^ 971)) * 2 ^ 971 < (2 ^ 53 :: rat) * 2 ^ 971"
        by (intro mult_strict_right_mono) simp_all
      then show False using ov unfolding d by simp
    next
      case False
      with e have "binade q + 1 \<le> 1023" by simp
      then have "(2::rat) powi (binade q + 1) \<le> 2 powi 1023"
        by (intro power_int_increasing) simp_all
      then show False using ov double_upper [OF assms] by simp
    qed
  qed
qed

lemma int_truediv10_overflow_iff:
  assumes "10 < T"
  shows "int_truediv T 10 = Inl OverflowError \<longleftrightarrow> 10 * (2 ^ 1024 - 2 ^ 970) \<le> T"
proof -
  let ?q = "of_int T / of_int 10 :: rat"
  have q: "1 \<le> ?q" using assms by simp
  have pos: "0 \<le> double_of_rat ?q"
    using double_lower [OF q] zero_less_power_int [of "2::rat" "binade ?q"] by linarith
  have "int_truediv T 10 = Inl OverflowError \<longleftrightarrow> 2 ^ 1024 \<le> double_of_rat ?q"
    using pos by (simp add: int_truediv_def Let_def)
  also have "\<dots> \<longleftrightarrow> 2 ^ 1024 - 2 ^ 970 \<le> ?q"
    by (rule double_overflow_iff [OF q])
  also have "\<dots> \<longleftrightarrow> (of_int (10 * (2 ^ 1024 - 2 ^ 970)) :: rat) \<le> of_int T"
    by (simp add: pos_le_divide_eq)
  also have "\<dots> \<longleftrightarrow> 10 * (2 ^ 1024 - 2 ^ 970) \<le> T"
    by (simp only: of_int_le_iff)
  finally show ?thesis .
qed

lemma int_truediv10_cases:
  assumes "10 < T"
  shows "int_truediv T 10 =
           (if 10 * (2 ^ 1024 - 2 ^ 970) \<le> T then Inl OverflowError
            else Inr (double_of_rat (of_int T / of_int 10)))"
proof -
  have "int_truediv T 10 = Inl OverflowError \<or> int_truediv T 10 = Inr (double_of_rat (of_int T / of_int 10))"
    by (simp add: int_truediv_def Let_def)
  then show ?thesis using int_truediv10_overflow_iff [OF assms] by auto
qed

section \<open>How the constructors resolve the total count\<close>

lemma total_n_resolved:
  "(if dict_get kw ''n'' PNone \<noteq> PNone then dict_get kw ''n'' PNone
    else get_default_n expt next_node) = resolved_total kw expt next_node"
  by (simp add: dict_get_def resolved_total_def split: option.splits)

lemma consume_all_n_resolved:
  "consume_all_n prev next_node kw expt = Inr (resolved_total kw expt next_node)"
  by (simp only: consume_all_n_def total_n_resolved)

lemma resolved_total_explicit:
  "kw ''n'' = Some v \<Longrightarrow> v \<noteq> PNone \<Longrightarrow> resolved_total kw expt next_node = v"
  by (simp add: resolved_total_def)

lemma resolved_total_default:
  "kw ''n'' = None \<or> kw ''n'' = Some PNone \<Longrightarrow>
   resolved_total kw expt next_node = get_default_n expt next_node"
  by (auto simp: resolved_total_def)

section \<open>The count constructors on an integer total\<close>

lemma repeat_arm_n_int:
  assumes "resolved_total kw expt next_node = PInt T"
  shows "repeat_arm_n prev next_node kw expt =
           (if T < 6 then Inr (PInt 0)
            else if T \<le> 10 then Inr (PInt 1)
            else if overflow_limit \<le> T then Inl OverflowError
            else Inr (PInt \<lceil>double_of_rat (of_int T / of_int 10)\<rceil>))"
proof (cases "10 < T")
  case True
  then show ?thesis
    using assms int_truediv10_cases [OF True]
    by (simp add: repeat_arm_n_def total_n_resolved overflow_limit_def math_ceil_def)
next
  case False
  then show ?thesis
    using assms by (simp add: repeat_arm_n_def total_n_resolved)
qed

lemma remaining_n_int:
  assumes "resolved_total kw expt next_node = PInt T" and "allocated kw = Some a"
  shows "remaining_n prev next_node kw expt = Inr (PInt (max (T - a) 0))"
proof -
  have "remaining_n prev next_node kw expt =
          (case dict_get kw ''grs_this_gen'' (PGenRuns []) of
             PGenRuns grs \<Rightarrow>
               (case resolved_total kw expt next_node of
                  PInt t \<Rightarrow> Inr (PInt (max (t - (\<Sum>gr\<leftarrow>grs. int (length (arms gr)))) 0))
                | _ \<Rightarrow> Inl TypeError)
           | _ \<Rightarrow> Inl TypeError)"
    by (simp only: remaining_n_def total_n_resolved Let_def)
  then show ?thesis
    using assms
    by (auto simp: allocated_def dict_get_def split: option.splits pyval.splits)
qed

lemma exact_limit_lt_overflow_limit: "exact_limit < overflow_limit"
  by (simp add: exact_limit_def overflow_limit_def)

lemma repeat_arm_n_exact:
  assumes "resolved_total kw expt next_node = PInt T" and "T \<le> exact_limit"
  shows "repeat_arm_n prev next_node kw expt = Inr (PInt (repeat_ladder T))"
proof (cases "10 < T")
  case True
  have "T < overflow_limit" using assms(2) exact_limit_lt_overflow_limit by linarith
  moreover have "\<lceil>double_of_rat (of_int T / of_int 10)\<rceil> = (T + 9) div 10"
    using True assms(2) by (intro ceil_truediv10_exact) (simp_all add: exact_limit_def)
  moreover have "\<lceil>of_int T / (10::rat)\<rceil> = (T + 9) div 10"
  proof -
    have "\<lceil>of_int T / (10::rat)\<rceil> = - ((- T) div 10)"
      using ceiling_divide_eq_div [of T 10, where ?'a = rat] by simp
    also have "\<dots> = (T + 9) div 10" by presburger
    finally show ?thesis .
  qed
  ultimately show ?thesis
    using True by (simp add: repeat_arm_n_int [OF assms(1)] repeat_ladder_def)
next
  case False
  then show ?thesis
    by (simp add: repeat_arm_n_int [OF assms(1)] repeat_ladder_def)
qed

lemma repeat_arm_n_overflow:
  assumes "resolved_total kw expt next_node = PInt T" and "overflow_limit \<le> T"
  shows "repeat_arm_n prev next_node kw expt = Inl OverflowError"
proof -
  have "10 < T" using assms(2) by (simp add: overflow_limit_def)
  then show ?thesis using assms(2) by (simp add: repeat_arm_n_int [OF assms(1)])
qed

lemma repeat_arm_n_returns:
  assumes "resolved_total kw expt next_node = PInt T" and "T < overflow_limit"
  shows "repeat_arm_n prev next_node kw expt =
           Inr (PInt (if T < 6 then 0 else if T \<le> 10 then 1
                      else \<lceil>double_of_rat (of_int T / of_int 10)\<rceil>))"
  using assms(2) by (simp add: repeat_arm_n_int [OF assms(1)])

text \<open>The value of the ladder with the float quotient, on integers.\<close>

lemma float_ladder_mono:
  assumes "T1 \<le> T2"
  shows "(if T1 < 6 then 0 else if T1 \<le> 10 then 1
          else \<lceil>double_of_rat (of_int T1 / of_int 10)\<rceil>)
         \<le> (if T2 < 6 then 0 else if T2 \<le> 10 then (1::int)
            else \<lceil>double_of_rat (of_int T2 / of_int 10)\<rceil>)"
proof (cases "10 < T1")
  case True
  then have T2: "10 < T2" using assms by simp
  have "(1::rat) \<le> of_int T1 / of_int 10" using True by simp
  moreover have "(of_int T1 :: rat) / of_int 10 \<le> of_int T2 / of_int 10"
    using assms by (simp add: divide_right_mono)
  ultimately have "double_of_rat (of_int T1 / of_int 10) \<le> double_of_rat (of_int T2 / of_int 10)"
    by (rule double_of_rat_mono)
  then have "\<lceil>double_of_rat (of_int T1 / of_int 10)\<rceil> \<le> \<lceil>double_of_rat (of_int T2 / of_int 10)\<rceil>"
    by (rule ceiling_mono)
  then show ?thesis using True T2 by simp
next
  case False
  show ?thesis
  proof (cases "10 < T2")
    case True
    then show ?thesis using False ceil_truediv10_ge [OF True] by simp
  next
    case F2: False
    then show ?thesis using False assms by simp
  qed
qed

section \<open>The default count\<close>

text \<open>
  Claim C6. \<^verbatim>\<open>_get_default_n\<close> returns the experiment's "total concurrent arms"
  property verbatim when the property is present and not \<^verbatim>\<open>None\<close>, and otherwise
  exactly ten times the next node's \<^verbatim>\<open>DEFAULT_N\<close>.
\<close>

theorem get_default_n_cases:
  "(properties expt EXPERIMENT_TOTAL_CONCURRENT_ARMS = Some v \<and> v \<noteq> PNone \<longrightarrow>
      get_default_n expt next_node = v) \<and>
   (properties expt EXPERIMENT_TOTAL_CONCURRENT_ARMS = None \<or>
    properties expt EXPERIMENT_TOTAL_CONCURRENT_ARMS = Some PNone \<longrightarrow>
      get_default_n expt next_node = PInt (10 * DEFAULT_N (generation_strategy next_node)))"
  by (auto simp: get_default_n_def dict_get_def)

theorem get_default_n_cases_witness:
  "properties (example_experiment [EXPERIMENT_TOTAL_CONCURRENT_ARMS \<mapsto> PInt 24])
     EXPERIMENT_TOTAL_CONCURRENT_ARMS = Some (PInt 24) \<and> PInt 24 \<noteq> PNone \<and>
   get_default_n (example_experiment [EXPERIMENT_TOTAL_CONCURRENT_ARMS \<mapsto> PInt 24])
     (example_node 1) = PInt 24 \<and>
   properties (example_experiment Map.empty) EXPERIMENT_TOTAL_CONCURRENT_ARMS = None \<and>
   get_default_n (example_experiment Map.empty) (example_node 3) = PInt 30"
  using get_default_n_cases
          [of "example_experiment [EXPERIMENT_TOTAL_CONCURRENT_ARMS \<mapsto> PInt 24]"
              "PInt 24" "example_node 1"]
        get_default_n_cases [of "example_experiment Map.empty" "PInt 24" "example_node 3"]
  by (simp add: example_experiment_def example_node_def)

text \<open>
  Claim C4, as stated, wants the result to be at least \<open>1\<close> and at least the per-call
  default even when the property is present. The property is handed back as it is: with
  the property set to \<open>0\<close> and \<^verbatim>\<open>DEFAULT_N = 1\<close> the result is \<open>0\<close>.
\<close>

theorem get_default_n_positive_counterexample:
  "get_default_n (example_experiment [EXPERIMENT_TOTAL_CONCURRENT_ARMS \<mapsto> PInt 0]) (example_node 1)
     = PInt 0 \<and>
   DEFAULT_N (generation_strategy (example_node 1)) = 1"
  by (simp add: get_default_n_def dict_get_def example_experiment_def example_node_def)

text \<open>
  Claim C4, amended. When the property is absent or \<^verbatim>\<open>None\<close> and the per-call default
  \<^verbatim>\<open>DEFAULT_N\<close> is at least \<open>1\<close>, \<^verbatim>\<open>_get_default_n\<close> returns an integer that is at
  least \<open>1\<close> and at least \<^verbatim>\<open>DEFAULT_N\<close>; when the property holds an integer, that
  integer is the result, whatever its sign.
\<close>

theorem get_default_n_lower_bound:
  "((properties expt EXPERIMENT_TOTAL_CONCURRENT_ARMS = None \<or>
     properties expt EXPERIMENT_TOTAL_CONCURRENT_ARMS = Some PNone) \<and>
    1 \<le> DEFAULT_N (generation_strategy next_node) \<longrightarrow>
      (\<exists>d. get_default_n expt next_node = PInt d \<and> 1 \<le> d \<and>
           DEFAULT_N (generation_strategy next_node) \<le> d)) \<and>
   (properties expt EXPERIMENT_TOTAL_CONCURRENT_ARMS = Some (PInt v) \<longrightarrow>
      get_default_n expt next_node = PInt v)"
  by (auto simp: get_default_n_def dict_get_def)

theorem get_default_n_lower_bound_witness:
  "properties (example_experiment Map.empty) EXPERIMENT_TOTAL_CONCURRENT_ARMS = None \<and>
   1 \<le> DEFAULT_N (generation_strategy (example_node 1)) \<and>
   get_default_n (example_experiment Map.empty) (example_node 1) = PInt 10 \<and>
   properties (example_experiment [EXPERIMENT_TOTAL_CONCURRENT_ARMS \<mapsto> PInt (- 2)])
     EXPERIMENT_TOTAL_CONCURRENT_ARMS = Some (PInt (- 2)) \<and>
   get_default_n (example_experiment [EXPERIMENT_TOTAL_CONCURRENT_ARMS \<mapsto> PInt (- 2)])
     (example_node 1) = PInt (- 2)"
  using get_default_n_lower_bound [of "example_experiment Map.empty" "example_node 1" 0]
        get_default_n_lower_bound
          [of "example_experiment [EXPERIMENT_TOTAL_CONCURRENT_ARMS \<mapsto> PInt (- 2)]"
              "example_node 1" "- 2"]
  by (simp add: get_default_n_def dict_get_def example_experiment_def example_node_def)

section \<open>The whole count\<close>

text \<open>
  Claim C5. \<^verbatim>\<open>consume_all_n\<close> returns the value under key \<^verbatim>\<open>"n"\<close> as it is (no
  clamping, no validation) whenever the key is present with a value other than
  \<^verbatim>\<open>None\<close>, and otherwise exactly the output of \<^verbatim>\<open>_get_default_n\<close>.
\<close>

theorem consume_all_n_contract:
  "(kw ''n'' = Some v \<and> v \<noteq> PNone \<longrightarrow> consume_all_n prev next_node kw expt = Inr v) \<and>
   (kw ''n'' = None \<or> kw ''n'' = Some PNone \<longrightarrow>
      consume_all_n prev next_node kw expt = Inr (get_default_n expt next_node))"
  by (auto simp: consume_all_n_def dict_get_def)

theorem consume_all_n_contract_witness:
  "[''n'' \<mapsto> PInt 20] ''n'' = Some (PInt 20) \<and> PInt 20 \<noteq> PNone \<and>
   consume_all_n None (example_node 1) [''n'' \<mapsto> PInt 20] (example_experiment Map.empty)
     = Inr (PInt 20) \<and>
   [''n'' \<mapsto> PInt (- 3)] ''n'' = Some (PInt (- 3)) \<and>
   consume_all_n None (example_node 1) [''n'' \<mapsto> PInt (- 3)] (example_experiment Map.empty)
     = Inr (PInt (- 3)) \<and>
   [''n'' \<mapsto> PNone] ''n'' = Some PNone \<and>
   consume_all_n None (example_node 1) [''n'' \<mapsto> PNone] (example_experiment Map.empty)
     = Inr (PInt 10) \<and>
   (Map.empty :: pydict) ''n'' = None \<and>
   consume_all_n None (example_node 1) Map.empty
     (example_experiment [EXPERIMENT_TOTAL_CONCURRENT_ARMS \<mapsto> PInt 24]) = Inr (PInt 24)"
proof -
  have d1: "get_default_n (example_experiment Map.empty) (example_node 1) = PInt 10"
    by (simp add: get_default_n_def dict_get_def example_experiment_def example_node_def)
  have d2: "get_default_n (example_experiment [EXPERIMENT_TOTAL_CONCURRENT_ARMS \<mapsto> PInt 24])
              (example_node 1) = PInt 24"
    by (simp add: get_default_n_def dict_get_def example_experiment_def)
  show ?thesis
    using consume_all_n_contract
            [of "[''n'' \<mapsto> PInt 20]" "PInt 20" None "example_node 1" "example_experiment Map.empty"]
          consume_all_n_contract
            [of "[''n'' \<mapsto> PInt (- 3)]" "PInt (- 3)" None "example_node 1"
                "example_experiment Map.empty"]
          consume_all_n_contract
            [of "[''n'' \<mapsto> PNone]" PNone None "example_node 1" "example_experiment Map.empty"]
          consume_all_n_contract
            [of Map.empty PNone None "example_node 1"
                "example_experiment [EXPERIMENT_TOTAL_CONCURRENT_ARMS \<mapsto> PInt 24]"]
          d1 d2
    by simp
qed

section \<open>The remaining count\<close>

text \<open>
  Claim C1. Whenever the resolved total is an integer \<open>T\<close> and the value under
  \<^verbatim>\<open>"grs_this_gen"\<close> is absent or a list of generator runs whose arm counts sum to
  \<open>a\<close>, \<^verbatim>\<open>remaining_n\<close> returns \<open>max (T - a) 0\<close>: never a negative number, exactly
  \<open>0\<close> once \<open>a\<close> reaches \<open>T\<close>, and an absent key counts as \<open>a = 0\<close>. The examples
  are \<open>T = 10\<close> with 4 arms (giving 6) and with 12 arms (giving 0).
\<close>

theorem remaining_n_contract:
  assumes "resolved_total kw expt next_node = PInt T" and "allocated kw = Some a"
  shows "remaining_n prev next_node kw expt = Inr (PInt (max (T - a) 0)) \<and>
         0 \<le> max (T - a) 0 \<and>
         (T \<le> a \<longrightarrow> remaining_n prev next_node kw expt = Inr (PInt 0)) \<and>
         (kw ''grs_this_gen'' = None \<longrightarrow> a = 0)"
  using assms remaining_n_int [OF assms, of prev]
  by (auto simp: allocated_def)

theorem remaining_n_contract_witness:
  "resolved_total [''n'' \<mapsto> PInt 10, ''grs_this_gen'' \<mapsto> PGenRuns [example_run 3, example_run 1]]
     (example_experiment Map.empty) (example_node 1) = PInt 10 \<and>
   allocated [''n'' \<mapsto> PInt 10, ''grs_this_gen'' \<mapsto> PGenRuns [example_run 3, example_run 1]] = Some 4 \<and>
   remaining_n None (example_node 1)
     [''n'' \<mapsto> PInt 10, ''grs_this_gen'' \<mapsto> PGenRuns [example_run 3, example_run 1]]
     (example_experiment Map.empty) = Inr (PInt 6) \<and>
   allocated [''n'' \<mapsto> PInt 10, ''grs_this_gen'' \<mapsto> PGenRuns [example_run 5, example_run 7]] = Some 12 \<and>
   remaining_n None (example_node 1)
     [''n'' \<mapsto> PInt 10, ''grs_this_gen'' \<mapsto> PGenRuns [example_run 5, example_run 7]]
     (example_experiment Map.empty) = Inr (PInt 0) \<and>
   resolved_total Map.empty (example_experiment Map.empty) (example_node 1) = PInt 10 \<and>
   allocated Map.empty = Some 0 \<and>
   remaining_n None (example_node 1) Map.empty (example_experiment Map.empty) = Inr (PInt 10)"
proof -
  let ?e = "example_experiment Map.empty"
  let ?n = "example_node 1"
  let ?k1 = "[''n'' \<mapsto> PInt 10, ''grs_this_gen'' \<mapsto> PGenRuns [example_run 3, example_run 1]]"
  let ?k2 = "[''n'' \<mapsto> PInt 10, ''grs_this_gen'' \<mapsto> PGenRuns [example_run 5, example_run 7]]"
  have t1: "resolved_total ?k1 ?e ?n = PInt 10" by (simp add: resolved_total_def)
  have t2: "resolved_total ?k2 ?e ?n = PInt 10" by (simp add: resolved_total_def)
  have t3: "resolved_total Map.empty ?e ?n = PInt 10"
    by (simp add: resolved_total_def get_default_n_def dict_get_def example_experiment_def
                  example_node_def)
  have a1: "allocated ?k1 = Some 4" by (simp add: allocated_def example_run_def)
  have a2: "allocated ?k2 = Some 12" by (simp add: allocated_def example_run_def)
  have a3: "allocated Map.empty = Some 0" by (simp add: allocated_def)
  show ?thesis
    using remaining_n_contract [OF t1 a1, of None] remaining_n_contract [OF t2 a2, of None]
          remaining_n_contract [OF t3 a3, of None] t1 t3 a1 a2 a3
    by simp
qed

section \<open>The repeat count\<close>

text \<open>
  Claim C2, as stated, asks for the exact ceiling of \<open>T / 10\<close> at every \<open>T > 10\<close>. The
  code takes the ceiling of the float quotient, and at \<open>T = 10 * 2\<^sup>5\<^sup>0 + 1\<close> the
  neighbouring doubles are \<open>1/4\<close> apart, the quotient \<open>2\<^sup>5\<^sup>0 + 1/10\<close> is rounded down to
  \<open>2\<^sup>5\<^sup>0\<close>, and the result is one less than the exact ceiling.
\<close>

theorem repeat_arm_n_ladder_counterexample:
  "repeat_arm_n None (example_node 1) [''n'' \<mapsto> PInt 11258999068426241]
      (example_experiment Map.empty) = Inr (PInt 1125899906842624) \<and>
   repeat_ladder 11258999068426241 = 1125899906842625"
proof -
  have "double_of_rat (11258999068426241 / 10) = 1125899906842624"
    by code_simp
  moreover have "resolved_total [''n'' \<mapsto> PInt 11258999068426241]
      (example_experiment Map.empty) (example_node 1) = PInt 11258999068426241"
    by (simp add: resolved_total_def)
  moreover have "repeat_ladder 11258999068426241 = 1125899906842625"
    by code_simp
  ultimately show ?thesis
    by (simp add: repeat_arm_n_int overflow_limit_def)
qed

text \<open>
  Claim C2, amended. Whenever the resolved total is an integer \<open>T \<le> 10 * 2\<^sup>5\<^sup>0\<close>,
  \<^verbatim>\<open>repeat_arm_n\<close> returns \<open>0\<close> when \<open>T < 6\<close>, \<open>1\<close> when \<open>6 \<le> T \<le> 10\<close>, and the
  exact ceiling of \<open>T / 10\<close> when \<open>T > 10\<close>.
\<close>

theorem repeat_arm_n_ladder:
  assumes "resolved_total kw expt next_node = PInt T" and "T \<le> exact_limit"
  shows "(T < 6 \<longrightarrow> repeat_arm_n prev next_node kw expt = Inr (PInt 0)) \<and>
         (6 \<le> T \<and> T \<le> 10 \<longrightarrow> repeat_arm_n prev next_node kw expt = Inr (PInt 1)) \<and>
         (10 < T \<longrightarrow>
            repeat_arm_n prev next_node kw expt = Inr (PInt \<lceil>of_int T / (10::rat)\<rceil>))"
  using repeat_arm_n_exact [OF assms, of prev] by (simp add: repeat_ladder_def)

theorem repeat_arm_n_ladder_witness:
  "resolved_total [''n'' \<mapsto> PInt 20] (example_experiment Map.empty) (example_node 1) = PInt 20 \<and>
   20 \<le> exact_limit \<and>
   repeat_arm_n None (example_node 1) [''n'' \<mapsto> PInt 20] (example_experiment Map.empty)
     = Inr (PInt 2) \<and>
   resolved_total [''n'' \<mapsto> PInt 3] (example_experiment Map.empty) (example_node 1) = PInt 3 \<and>
   repeat_arm_n None (example_node 1) [''n'' \<mapsto> PInt 3] (example_experiment Map.empty)
     = Inr (PInt 0) \<and>
   resolved_total Map.empty (example_experiment Map.empty) (example_node 1) = PInt 10 \<and>
   repeat_arm_n None (example_node 1) Map.empty (example_experiment Map.empty)
     = Inr (PInt 1) \<and>
   resolved_total [''n'' \<mapsto> PInt exact_limit] (example_experiment Map.empty) (example_node 1)
     = PInt exact_limit \<and>
   repeat_arm_n None (example_node 1) [''n'' \<mapsto> PInt exact_limit] (example_experiment Map.empty)
     = Inr (PInt (2 ^ 50))"
proof -
  let ?e = "example_experiment Map.empty"
  let ?n = "example_node 1"
  have t1: "resolved_total [''n'' \<mapsto> PInt 20] ?e ?n = PInt 20" by (simp add: resolved_total_def)
  have t2: "resolved_total [''n'' \<mapsto> PInt 3] ?e ?n = PInt 3" by (simp add: resolved_total_def)
  have t3: "resolved_total Map.empty ?e ?n = PInt 10"
    by (simp add: resolved_total_def get_default_n_def dict_get_def example_experiment_def
                  example_node_def)
  have t4: "resolved_total [''n'' \<mapsto> PInt exact_limit] ?e ?n = PInt exact_limit"
    by (simp add: resolved_total_def)
  have l1: "(20::int) \<le> exact_limit" and l2: "(3::int) \<le> exact_limit"
    and l3: "(10::int) \<le> exact_limit" and l4: "exact_limit \<le> exact_limit"
    by (simp_all add: exact_limit_def)
  have c: "\<lceil>(20::rat) / 10\<rceil> = 2" by simp
  have c4: "\<lceil>of_int exact_limit / (10::rat)\<rceil> = 2 ^ 50" "10 < exact_limit"
    by (simp_all add: exact_limit_def)
  show ?thesis
    using repeat_arm_n_ladder [OF t1 l1, of None] repeat_arm_n_ladder [OF t2 l2, of None]
          repeat_arm_n_ladder [OF t3 l3, of None] repeat_arm_n_ladder [OF t4 l4, of None]
          t1 t2 t3 t4 l1 c4
    by simp
qed

text \<open>
  Claim C8, as stated, compares the results at every pair \<open>T1 \<le> T2\<close> of integers. From
  \<open>T = 10 * (2\<^sup>1\<^sup>0\<^sup>2\<^sup>4 - 2\<^sup>9\<^sup>7\<^sup>0)\<close> on, the quotient \<open>T / 10\<close> is rounded to \<open>2\<^sup>1\<^sup>0\<^sup>2\<^sup>4\<close>, which
  is no double: the division raises \<^verbatim>\<open>OverflowError\<close> and there is no result to compare.
\<close>

theorem repeat_arm_n_monotone_counterexample:
  "repeat_arm_n None (example_node 1) [''n'' \<mapsto> PInt 100] (example_experiment Map.empty)
     = Inr (PInt 10) \<and>
   100 \<le> overflow_limit \<and>
   repeat_arm_n None (example_node 1) [''n'' \<mapsto> PInt overflow_limit] (example_experiment Map.empty)
     = Inl OverflowError"
proof -
  let ?e = "example_experiment Map.empty"
  let ?n = "example_node 1"
  have t1: "resolved_total [''n'' \<mapsto> PInt 100] ?e ?n = PInt 100"
    by (simp add: resolved_total_def)
  have t2: "resolved_total [''n'' \<mapsto> PInt overflow_limit] ?e ?n = PInt overflow_limit"
    by (simp add: resolved_total_def)
  have l: "(100::int) \<le> exact_limit" by (simp add: exact_limit_def)
  have "repeat_ladder 100 = 10" by (simp add: repeat_ladder_def)
  then have "repeat_arm_n None ?n [''n'' \<mapsto> PInt 100] ?e = Inr (PInt 10)"
    using repeat_arm_n_exact [OF t1 l, of None] by simp
  moreover have "repeat_arm_n None ?n [''n'' \<mapsto> PInt overflow_limit] ?e = Inl OverflowError"
    using t2 by (rule repeat_arm_n_overflow) simp
  moreover have "100 \<le> overflow_limit" by (simp add: overflow_limit_def)
  ultimately show ?thesis by simp
qed


text \<open>
  Claim C8, amended. For all integers \<open>T1 \<le> T2 < 10 * (2\<^sup>1\<^sup>0\<^sup>2\<^sup>4 - 2\<^sup>9\<^sup>7\<^sup>0)\<close>, whatever the
  calls that resolve to them, both calls of \<^verbatim>\<open>repeat_arm_n\<close> return and the result for
  \<open>T1\<close> is at most the result for \<open>T2\<close>; the results are \<open>0\<close> at \<open>T = 5\<close>, \<open>1\<close> at
  \<open>T = 6\<close> and at \<open>T = 10\<close>, \<open>2\<close> at \<open>T = 11\<close> and \<open>10\<close> at \<open>T = 100\<close>.
\<close>

theorem repeat_arm_n_monotone:
  "(resolved_total kw1 expt1 node1 = PInt T1 \<and> resolved_total kw2 expt2 node2 = PInt T2 \<and>
    T1 \<le> T2 \<and> T2 < overflow_limit \<longrightarrow>
      (\<exists>r1 r2. repeat_arm_n prev1 node1 kw1 expt1 = Inr (PInt r1) \<and>
               repeat_arm_n prev2 node2 kw2 expt2 = Inr (PInt r2) \<and> r1 \<le> r2)) \<and>
   (resolved_total kw expt next_node = PInt T \<longrightarrow>
      (T = 5 \<longrightarrow> repeat_arm_n prev next_node kw expt = Inr (PInt 0)) \<and>
      (T = 6 \<longrightarrow> repeat_arm_n prev next_node kw expt = Inr (PInt 1)) \<and>
      (T = 10 \<longrightarrow> repeat_arm_n prev next_node kw expt = Inr (PInt 1)) \<and>
      (T = 11 \<longrightarrow> repeat_arm_n prev next_node kw expt = Inr (PInt 2)) \<and>
      (T = 100 \<longrightarrow> repeat_arm_n prev next_node kw expt = Inr (PInt 10)))"
proof (intro conjI impI)
  assume a: "resolved_total kw1 expt1 node1 = PInt T1 \<and> resolved_total kw2 expt2 node2 = PInt T2 \<and>
    T1 \<le> T2 \<and> T2 < overflow_limit"
  then have "T1 < overflow_limit" by simp
  then show "\<exists>r1 r2. repeat_arm_n prev1 node1 kw1 expt1 = Inr (PInt r1) \<and>
               repeat_arm_n prev2 node2 kw2 expt2 = Inr (PInt r2) \<and> r1 \<le> r2"
    using a float_ladder_mono [of T1 T2]
    by (simp only: repeat_arm_n_returns [of kw1 expt1 node1 T1]
                   repeat_arm_n_returns [of kw2 expt2 node2 T2]) blast
next
  assume t: "resolved_total kw expt next_node = PInt T"
  { assume "T = 5"
    then show "repeat_arm_n prev next_node kw expt = Inr (PInt 0)"
      using repeat_arm_n_exact [OF t, of prev] by (simp add: exact_limit_def repeat_ladder_def) }
  { assume "T = 6"
    then show "repeat_arm_n prev next_node kw expt = Inr (PInt 1)"
      using repeat_arm_n_exact [OF t, of prev] by (simp add: exact_limit_def repeat_ladder_def) }
  { assume "T = 10"
    then show "repeat_arm_n prev next_node kw expt = Inr (PInt 1)"
      using repeat_arm_n_exact [OF t, of prev] by (simp add: exact_limit_def repeat_ladder_def) }
  { assume "T = 11"
    moreover have "\<lceil>(11::rat) / 10\<rceil> = 2" by code_simp
    ultimately show "repeat_arm_n prev next_node kw expt = Inr (PInt 2)"
      using repeat_arm_n_exact [OF t, of prev] by (simp add: exact_limit_def repeat_ladder_def) }
  { assume "T = 100"
    then show "repeat_arm_n prev next_node kw expt = Inr (PInt 10)"
      using repeat_arm_n_exact [OF t, of prev] by (simp add: exact_limit_def repeat_ladder_def) }
qed

theorem repeat_arm_n_monotone_witness:
  "resolved_total [''n'' \<mapsto> PInt 20] (example_experiment Map.empty) (example_node 1) = PInt 20 \<and>
   resolved_total [''n'' \<mapsto> PInt (exact_limit + 1)]
     (example_experiment [EXPERIMENT_TOTAL_CONCURRENT_ARMS \<mapsto> PInt 7]) (example_node 2)
     = PInt (exact_limit + 1) \<and>
   20 \<le> exact_limit + 1 \<and> exact_limit + 1 < overflow_limit \<and>
   (\<exists>r1 r2.
      repeat_arm_n None (example_node 1) [''n'' \<mapsto> PInt 20] (example_experiment Map.empty)
        = Inr (PInt r1) \<and>
      repeat_arm_n (Some (example_node 1)) (example_node 2) [''n'' \<mapsto> PInt (exact_limit + 1)]
        (example_experiment [EXPERIMENT_TOTAL_CONCURRENT_ARMS \<mapsto> PInt 7]) = Inr (PInt r2) \<and>
      r1 \<le> r2) \<and>
   resolved_total [''n'' \<mapsto> PInt 11] (example_experiment Map.empty) (example_node 1) = PInt 11 \<and>
   repeat_arm_n None (example_node 1) [''n'' \<mapsto> PInt 11] (example_experiment Map.empty)
     = Inr (PInt 2)"
proof -
  let ?e1 = "example_experiment Map.empty"
  let ?e2 = "example_experiment [EXPERIMENT_TOTAL_CONCURRENT_ARMS \<mapsto> PInt 7]"
  have t1: "resolved_total [''n'' \<mapsto> PInt 20] ?e1 (example_node 1) = PInt 20"
    by (simp add: resolved_total_def)
  have t2: "resolved_total [''n'' \<mapsto> PInt (exact_limit + 1)] ?e2 (example_node 2)
              = PInt (exact_limit + 1)"
    by (simp add: resolved_total_def)
  have t3: "resolved_total [''n'' \<mapsto> PInt 11] ?e1 (example_node 1) = PInt 11"
    by (simp add: resolved_total_def)
  have l: "20 \<le> exact_limit + 1" "exact_limit + 1 < overflow_limit"
    by (simp_all add: exact_limit_def overflow_limit_def)
  show ?thesis
    using repeat_arm_n_monotone
            [of "[''n'' \<mapsto> PInt 20]" ?e1 "example_node 1" 20
                "[''n'' \<mapsto> PInt (exact_limit + 1)]" ?e2 "example_node 2" "exact_limit + 1"
                None "Some (example_node 1)"
                "[''n'' \<mapsto> PInt 11]" ?e1 "example_node 1" 11 None]
          t1 t2 t3 l
    by simp
qed

text \<open>
  Claim C10, as stated, bounds the result at every integer \<open>T\<close>. At \<open>T = 10 * 2\<^sup>1\<^sup>0\<^sup>2\<^sup>4\<close>
  the call raises \<^verbatim>\<open>OverflowError\<close>, so there is no result.
\<close>

theorem repeat_arm_n_bounds_counterexample:
  "repeat_arm_n None (example_node 1) [''n'' \<mapsto> PInt (10 * 2 ^ 1024)] (example_experiment Map.empty)
     = Inl OverflowError"
proof -
  have "resolved_total [''n'' \<mapsto> PInt (10 * 2 ^ 1024)] (example_experiment Map.empty) (example_node 1)
          = PInt (10 * 2 ^ 1024)"
    by (simp add: resolved_total_def)
  then show ?thesis
    by (rule repeat_arm_n_overflow) (simp add: overflow_limit_def)
qed

text \<open>
  Claim C10, amended. For every integer resolved total \<open>T < 10 * (2\<^sup>1\<^sup>0\<^sup>2\<^sup>4 - 2\<^sup>9\<^sup>7\<^sup>0)\<close>,
  negative ones included, \<^verbatim>\<open>repeat_arm_n\<close> returns an integer \<open>r \<ge> 0\<close>, and \<open>r \<le> T\<close>
  when \<open>T \<ge> 0\<close>.
\<close>

theorem repeat_arm_n_bounds:
  assumes "resolved_total kw expt next_node = PInt T" and "T < overflow_limit"
  shows "\<exists>r. repeat_arm_n prev next_node kw expt = Inr (PInt r) \<and> 0 \<le> r \<and> (0 \<le> T \<longrightarrow> r \<le> T)"
proof (cases "10 < T")
  case True
  then show ?thesis
    using repeat_arm_n_returns [OF assms, of prev] ceil_truediv10_ge [OF True]
          ceil_truediv10_le [OF True]
    by simp
next
  case False
  then show ?thesis
    using repeat_arm_n_returns [OF assms, of prev] by auto
qed

theorem repeat_arm_n_bounds_witness:
  "resolved_total [''n'' \<mapsto> PInt 20] (example_experiment Map.empty) (example_node 1) = PInt 20 \<and>
   20 < overflow_limit \<and>
   (\<exists>r. repeat_arm_n None (example_node 1) [''n'' \<mapsto> PInt 20] (example_experiment Map.empty)
          = Inr (PInt r) \<and> 0 \<le> r \<and> r \<le> 20) \<and>
   resolved_total [''n'' \<mapsto> PInt (- 4)] (example_experiment Map.empty) (example_node 1)
     = PInt (- 4) \<and>
   - 4 < overflow_limit \<and>
   (\<exists>r. repeat_arm_n None (example_node 1) [''n'' \<mapsto> PInt (- 4)] (example_experiment Map.empty)
          = Inr (PInt r) \<and> 0 \<le> r) \<and>
   resolved_total [''n'' \<mapsto> PInt (overflow_limit - 1)] (example_experiment Map.empty)
     (example_node 1) = PInt (overflow_limit - 1) \<and>
   overflow_limit - 1 < overflow_limit \<and>
   (\<exists>r. repeat_arm_n None (example_node 1) [''n'' \<mapsto> PInt (overflow_limit - 1)]
          (example_experiment Map.empty) = Inr (PInt r) \<and> 0 \<le> r \<and> r \<le> overflow_limit - 1)"
proof -
  let ?e = "example_experiment Map.empty"
  have t1: "resolved_total [''n'' \<mapsto> PInt 20] ?e (example_node 1) = PInt 20"
    by (simp add: resolved_total_def)
  have t2: "resolved_total [''n'' \<mapsto> PInt (- 4)] ?e (example_node 1) = PInt (- 4)"
    by (simp add: resolved_total_def)
  have t3: "resolved_total [''n'' \<mapsto> PInt (overflow_limit - 1)] ?e (example_node 1)
              = PInt (overflow_limit - 1)"
    by (simp add: resolved_total_def)
  have l: "20 < overflow_limit" "- 4 < overflow_limit" "0 \<le> overflow_limit - 1"
    by (simp_all add: overflow_limit_def)
  have l3: "overflow_limit - 1 < overflow_limit" by simp
  show ?thesis
    using repeat_arm_n_bounds [OF t1 l(1), of None] repeat_arm_n_bounds [OF t2 l(2), of None]
          repeat_arm_n_bounds [OF t3 l3, of None] t1 t2 t3 l
    by simp
qed

section \<open>An explicit count makes the experiment and the node irrelevant\<close>

text \<open>
  Claim C9. Whenever the keyword mapping holds a value other than \<^verbatim>\<open>None\<close> under key
  \<^verbatim>\<open>"n"\<close>, each of \<^verbatim>\<open>consume_all_n\<close>, \<^verbatim>\<open>repeat_arm_n\<close> and \<^verbatim>\<open>remaining_n\<close> gives
  the same outcome for any two experiments and any two next nodes (and previous nodes).
\<close>

theorem explicit_n_ignores_experiment_and_node:
  assumes "kw ''n'' = Some v" and "v \<noteq> PNone"
  shows "consume_all_n prev1 node1 kw expt1 = consume_all_n prev2 node2 kw expt2 \<and>
         repeat_arm_n prev1 node1 kw expt1 = repeat_arm_n prev2 node2 kw expt2 \<and>
         remaining_n prev1 node1 kw expt1 = remaining_n prev2 node2 kw expt2"
  using assms
  by (simp add: consume_all_n_def repeat_arm_n_def remaining_n_def dict_get_def)

theorem explicit_n_ignores_experiment_and_node_witness:
  "[''n'' \<mapsto> PInt 20, ''grs_this_gen'' \<mapsto> PGenRuns [example_run 5, example_run 3]] ''n''
     = Some (PInt 20) \<and>
   PInt 20 \<noteq> PNone \<and>
   consume_all_n None (example_node 1)
     [''n'' \<mapsto> PInt 20, ''grs_this_gen'' \<mapsto> PGenRuns [example_run 5, example_run 3]]
     (example_experiment Map.empty)
   = consume_all_n (Some (example_node 1)) (example_node 7)
     [''n'' \<mapsto> PInt 20, ''grs_this_gen'' \<mapsto> PGenRuns [example_run 5, example_run 3]]
     (example_experiment [EXPERIMENT_TOTAL_CONCURRENT_ARMS \<mapsto> PInt 50]) \<and>
   repeat_arm_n None (example_node 1)
     [''n'' \<mapsto> PInt 20, ''grs_this_gen'' \<mapsto> PGenRuns [example_run 5, example_run 3]]
     (example_experiment Map.empty)
   = repeat_arm_n (Some (example_node 1)) (example_node 7)
     [''n'' \<mapsto> PInt 20, ''grs_this_gen'' \<mapsto> PGenRuns [example_run 5, example_run 3]]
     (example_experiment [EXPERIMENT_TOTAL_CONCURRENT_ARMS \<mapsto> PInt 50]) \<and>
   remaining_n None (example_node 1)
     [''n'' \<mapsto> PInt 20, ''grs_this_gen'' \<mapsto> PGenRuns [example_run 5, example_run 3]]
     (example_experiment Map.empty)
   = remaining_n (Some (example_node 1)) (example_node 7)
     [''n'' \<mapsto> PInt 20, ''grs_this_gen'' \<mapsto> PGenRuns [example_run 5, example_run 3]]
     (example_experiment [EXPERIMENT_TOTAL_CONCURRENT_ARMS \<mapsto> PInt 50]) \<and>
   remaining_n (Some (example_node 1)) (example_node 7)
     [''n'' \<mapsto> PInt 20, ''grs_this_gen'' \<mapsto> PGenRuns [example_run 5, example_run 3]]
     (example_experiment [EXPERIMENT_TOTAL_CONCURRENT_ARMS \<mapsto> PInt 50]) = Inr (PInt 12)"
proof -
  let ?kw = "[''n'' \<mapsto> PInt 20, ''grs_this_gen'' \<mapsto> PGenRuns [example_run 5, example_run 3]]"
  let ?e2 = "example_experiment [EXPERIMENT_TOTAL_CONCURRENT_ARMS \<mapsto> PInt 50]"
  have n: "?kw ''n'' = Some (PInt 20)" by simp
  have v: "PInt 20 \<noteq> PNone" by simp
  have t: "resolved_total ?kw ?e2 (example_node 7) = PInt 20" by (simp add: resolved_total_def)
  have a: "allocated ?kw = Some 8" by (simp add: allocated_def example_run_def)
  have r: "remaining_n (Some (example_node 1)) (example_node 7) ?kw ?e2 = Inr (PInt 12)"
    using remaining_n_int [OF t a, of "Some (example_node 1)"] by simp
  show ?thesis
    using explicit_n_ignores_experiment_and_node
            [of ?kw "PInt 20" None "example_node 1" "example_experiment Map.empty"
                "Some (example_node 1)" "example_node 7" ?e2] n r
    by simp
qed

section \<open>The target trial\<close>

text \<open>
  Claim C3. \<^verbatim>\<open>set_target_trial\<close> raises if and only if \<^verbatim>\<open>get_target_trial_index\<close>
  returns \<^verbatim>\<open>None\<close> for the experiment; what it raises is the generation exception,
  whose message holds the rendering of the next node and that of the experiment's
  trials; when the index is \<open>k\<close> it returns an \<^verbatim>\<open>ObservationFeatures\<close> with an empty
  parameter mapping and trial index \<open>k\<close>, and it never returns \<^verbatim>\<open>None\<close>.
\<close>

theorem set_target_trial_contract:
  "((\<exists>err. set_target_trial get_target_trial_index prev next_node kw expt = Inl err) \<longleftrightarrow>
      get_target_trial_index expt = None) \<and>
   (get_target_trial_index expt = None \<longrightarrow>
      (\<exists>msg. set_target_trial get_target_trial_index prev next_node kw expt
                = Inl (AxGenerationException msg) \<and>
             StrNode next_node \<in> set msg \<and> StrTrials (trials expt) \<in> set msg)) \<and>
   (get_target_trial_index expt = Some k \<longrightarrow>
      set_target_trial get_target_trial_index prev next_node kw expt
        = Inr (Some \<lparr>parameters = Map.empty, trial_index = Some k\<rparr>)) \<and>
   set_target_trial get_target_trial_index prev next_node kw expt \<noteq> Inr None"
  by (auto simp: set_target_trial_def no_target_trial_message_def split: option.splits)

theorem set_target_trial_contract_witness:
  "(\<lambda>_. None :: int option) (example_experiment Map.empty) = None \<and>
   set_target_trial (\<lambda>_. None) None (example_node 1) Map.empty (example_experiment Map.empty)
     = Inl (AxGenerationException
              (no_target_trial_message (example_node 1) (example_experiment Map.empty))) \<and>
   StrNode (example_node 1)
     \<in> set (no_target_trial_message (example_node 1) (example_experiment Map.empty)) \<and>
   StrTrials Map.empty
     \<in> set (no_target_trial_message (example_node 1) (example_experiment Map.empty)) \<and>
   (\<lambda>_. Some (3::int)) (example_experiment Map.empty) = Some 3 \<and>
   set_target_trial (\<lambda>_. Some 3) None (example_node 1) Map.empty (example_experiment Map.empty)
     = Inr (Some \<lparr>parameters = Map.empty, trial_index = Some 3\<rparr>)"
  using set_target_trial_contract
          [of "\<lambda>_. None" None "example_node 1" Map.empty "example_experiment Map.empty" 3]
        set_target_trial_contract
          [of "\<lambda>_. Some 3" None "example_node 1" Map.empty "example_experiment Map.empty" 3]
  by (simp add: set_target_trial_def no_target_trial_message_def example_experiment_def)

section \<open>The dispatch\<close>

text \<open>
  Claim C7. Calling one of the four members of \<^verbatim>\<open>NodeInputConstructors\<close> gives exactly
  the outcome of the constructor function of the same name on the four arguments; a
  value it returns is an integer for the three count members (the resolved total being
  an integer) and a fixed-features value for \<^verbatim>\<open>set_target_trial\<close>; and for a name that
  the module does not define, the dispatch raises a \<^verbatim>\<open>ValueError\<close> whose message
  starts with the name and names the file \<^verbatim>\<open>generation_node_input_constructors.py\<close>.
\<close>

theorem dispatch_contract:
  "call other get_target_trial_index ALL_N prev next_node kw expt
     = map_sum id CountInput (consume_all_n prev next_node kw expt) \<and>
   call other get_target_trial_index REPEAT_N prev next_node kw expt
     = map_sum id CountInput (repeat_arm_n prev next_node kw expt) \<and>
   call other get_target_trial_index REMAINING_N prev next_node kw expt
     = map_sum id CountInput (remaining_n prev next_node kw expt) \<and>
   call other get_target_trial_index TARGET_TRIAL_FIXED_FEATURES prev next_node kw expt
     = map_sum id FixedFeaturesInput
         (set_target_trial get_target_trial_index prev next_node kw expt) \<and>
   (call other get_target_trial_index c prev next_node kw expt = Inr v \<and>
    (c = TARGET_TRIAL_FIXED_FEATURES \<or> (\<exists>T. resolved_total kw expt next_node = PInt T)) \<longrightarrow>
      has_purpose (purpose_of c) v) \<and>
   (module_getattr other get_target_trial_index name = None \<longrightarrow>
      call_value other get_target_trial_index name prev next_node kw expt
        = Inl (ValueError (name @
            '' is not defined as a method in ``generation_node_input_constructors.py``. Please add the method to the file.'')))"
proof (intro conjI impI)
  show a: "call other get_target_trial_index ALL_N prev next_node kw expt
     = map_sum id CountInput (consume_all_n prev next_node kw expt)"
    by (simp add: call_def call_value_def module_getattr_def)
  show b: "call other get_target_trial_index REPEAT_N prev next_node kw expt
     = map_sum id CountInput (repeat_arm_n prev next_node kw expt)"
    by (simp add: call_def call_value_def module_getattr_def)
  show c: "call other get_target_trial_index REMAINING_N prev next_node kw expt
     = map_sum id CountInput (remaining_n prev next_node kw expt)"
    by (simp add: call_def call_value_def module_getattr_def)
  show d: "call other get_target_trial_index TARGET_TRIAL_FIXED_FEATURES prev next_node kw expt
     = map_sum id FixedFeaturesInput
         (set_target_trial get_target_trial_index prev next_node kw expt)"
    by (simp add: call_def call_value_def module_getattr_def)
  show "has_purpose (purpose_of c) v"
    if h: "call other get_target_trial_index c prev next_node kw expt = Inr v \<and>
      (c = TARGET_TRIAL_FIXED_FEATURES \<or> (\<exists>T. resolved_total kw expt next_node = PInt T))"
  proof (cases c)
    case ALL_N
    with h obtain T where "resolved_total kw expt next_node = PInt T" by auto
    with h ALL_N show ?thesis
      by (auto simp: a consume_all_n_resolved)
  next
    case REPEAT_N
    with h obtain T where T: "resolved_total kw expt next_node = PInt T" by auto
    from h REPEAT_N show ?thesis
      by (auto simp: b repeat_arm_n_int [OF T] split: if_splits)
  next
    case REMAINING_N
    with h obtain T where T: "resolved_total kw expt next_node = PInt T" by auto
    have "remaining_n prev next_node kw expt =
          (case dict_get kw ''grs_this_gen'' (PGenRuns []) of
             PGenRuns grs \<Rightarrow>
               (case resolved_total kw expt next_node of
                  PInt t \<Rightarrow> Inr (PInt (max (t - (\<Sum>gr\<leftarrow>grs. int (length (arms gr)))) 0))
                | _ \<Rightarrow> Inl TypeError)
           | _ \<Rightarrow> Inl TypeError)"
      by (simp only: remaining_n_def total_n_resolved Let_def)
    with h REMAINING_N T show ?thesis
      by (auto simp: c split: pyval.splits)
  next
    case TARGET_TRIAL_FIXED_FEATURES
    with h show ?thesis
      by (auto simp: d set_target_trial_def split: option.splits)
  qed
  show "call_value other get_target_trial_index name prev next_node kw expt
        = Inl (ValueError (name @
            '' is not defined as a method in ``generation_node_input_constructors.py``. Please add the method to the file.''))"
    if "module_getattr other get_target_trial_index name = None"
    using that by (simp add: call_value_def)
qed

theorem dispatch_contract_witness:
  "call Map.empty (\<lambda>_. Some 3) ALL_N None (example_node 1) [''n'' \<mapsto> PInt 20]
     (example_experiment Map.empty) = Inr (CountInput (PInt 20)) \<and>
   has_purpose (purpose_of ALL_N) (CountInput (PInt 20)) \<and>
   call Map.empty (\<lambda>_. Some 3) TARGET_TRIAL_FIXED_FEATURES None (example_node 1) [''n'' \<mapsto> PInt 20]
     (example_experiment Map.empty)
     = Inr (FixedFeaturesInput (Some \<lparr>parameters = Map.empty, trial_index = Some 3\<rparr>)) \<and>
   has_purpose (purpose_of TARGET_TRIAL_FIXED_FEATURES)
     (FixedFeaturesInput (Some \<lparr>parameters = Map.empty, trial_index = Some 3\<rparr>)) \<and>
   module_getattr Map.empty (\<lambda>_. Some 3) ''thompson_n'' = None \<and>
   call_value Map.empty (\<lambda>_. Some 3) ''thompson_n'' None (example_node 1) [''n'' \<mapsto> PInt 20]
     (example_experiment Map.empty)
     = Inl (ValueError
        ''thompson_n is not defined as a method in ``generation_node_input_constructors.py``. Please add the method to the file.'')"
proof -
  let ?e = "example_experiment Map.empty"
  let ?kw = "[''n'' \<mapsto> PInt 20]"
  let ?f = "\<lambda>_::Experiment. Some (3::int)"
  have t: "resolved_total ?kw ?e (example_node 1) = PInt 20" by (simp add: resolved_total_def)
  have m: "module_getattr Map.empty ?f ''thompson_n'' = None" by (simp add: module_getattr_def)
  have c1: "consume_all_n None (example_node 1) ?kw ?e = Inr (PInt 20)"
    by (simp add: consume_all_n_resolved t)
  have c2: "set_target_trial ?f None (example_node 1) ?kw ?e
              = Inr (Some \<lparr>parameters = Map.empty, trial_index = Some 3\<rparr>)"
    by (simp add: set_target_trial_def)
  show ?thesis
    using dispatch_contract
            [of Map.empty ?f None "example_node 1" ?kw ?e ALL_N "CountInput (PInt 20)" "''thompson_n''"]
          dispatch_contract
            [of Map.empty ?f None "example_node 1" ?kw ?e TARGET_TRIAL_FIXED_FEATURES
                "FixedFeaturesInput (Some \<lparr>parameters = Map.empty, trial_index = Some 3\<rparr>)"
                "''thompson_n''"]
          t m c1 c2
    by simp
qed

end
